theory Spec2Isabelle
  imports Main
begin

section \<open>The retryer of query-core: data model\<close>

text \<open>
  The development embeds \<^verbatim>\<open>packages/query-core/retryer.ts\<close>,
  \<^verbatim>\<open>focusManager.ts\<close> and \<^verbatim>\<open>types.ts\<close>.

  \<^verbatim>\<open>CreateRetryer\<close> is a closure over four mutable variables and one promise chain.
  The closure variables become the fields of a record, the promise chain becomes the
  field \<open>phase\<close> (which callback of the chain is waiting, and for what), and every
  callback of the chain and every method of the returned object becomes a
  state-transforming function. What the engine does to the outside (calling
  \<^verbatim>\<open>config.fn\<close>, a lifecycle callback, \<^verbatim>\<open>sleep\<close>, the outer promise's resolvers)
  is appended to the field \<open>trace\<close>.

  JavaScript numbers are modelled as integers: \<open>failureCount\<close> as a natural number (it
  starts at 0 and is only incremented), a numeric \<^verbatim>\<open>retry\<close> or \<^verbatim>\<open>retryDelay\<close> as \<open>int\<close>.

  The callbacks of the configuration are taken to return normally and not to call the
  methods of the engine themselves. A callback that is absent from the configuration
  makes \<^verbatim>\<open>config.cb?.()\<close> do nothing; the effect in the trace stands for the call of
  the slot.
\<close>

datatype NetworkMode = Online | Always | OfflineFirst

record CancelOptions =
  revert :: "bool option"
  silent :: "bool option"

datatype 'e RetryValue =
    RetryBool bool
  | RetryNumber int
  | RetryFunction "nat \<Rightarrow> 'e \<Rightarrow> bool"

datatype 'e RetryDelayValue =
    DelayNumber int
  | DelayFunction "nat \<Rightarrow> 'e \<Rightarrow> int"

text \<open>
  The fields of \<^verbatim>\<open>RetryerConfig\<close> that are data. \<^verbatim>\<open>fn\<close> and the optional callbacks
  are opaque to the engine: a call of one of them is recorded as an effect, and the
  settling of the promise returned by \<^verbatim>\<open>fn\<close> arrives as an event.
\<close>

record 'e RetryerConfig =
  retry :: "'e RetryValue option"
  retryDelay :: "'e RetryDelayValue option"
  networkMode :: "NetworkMode option"

text \<open>
  The values the promise can be rejected with: \<^verbatim>\<open>reject\<close> takes \<^verbatim>\<open>any\<close>, and the
  code passes either a \<^verbatim>\<open>new CancelledError(options)\<close> or the error of the unit of work.
\<close>

datatype 'e rejection =
    CancelledError "bool option" "bool option"
  | WorkError 'e

datatype ('a, 'e) settlement = Pending | Fulfilled 'a | Rejected "'e rejection"

text \<open>
  What a pause or a delay is followed by: \<^verbatim>\<open>pause().then(run)\<close> at start-up, or the
  last \<^verbatim>\<open>.then\<close> of the retry branch, which holds the error of the failed attempt.
\<close>

datatype 'e continuation = ThenRun | ThenRecheck 'e

text \<open>
  The one pending link of the promise chain:
  \<^item> \<open>AwaitFn\<close>: \<^verbatim>\<open>config.fn()\<close> was called, its handlers have not run;
  \<^item> \<open>AwaitDelay e\<close>: \<^verbatim>\<open>sleep(delay)\<close> is pending after the failure \<open>e\<close>;
  \<^item> \<open>AwaitPause k\<close>: the promise created by \<^verbatim>\<open>pause()\<close> is unresolved;
  \<^item> \<open>PauseClosing k\<close>: \<^verbatim>\<open>continueResolve\<close> was called, the \<^verbatim>\<open>.then\<close> callback of
    \<^verbatim>\<open>pause\<close> has not run yet;
  \<^item> \<open>AwaitThen k\<close>: the callback after the wait (\<^verbatim>\<open>run\<close>, or the re-check of
    \<^verbatim>\<open>isRetryCancelled\<close>) is queued;
  \<^item> \<open>Idle\<close>: nothing is pending.
\<close>

datatype 'e phase =
    AwaitFn
  | AwaitDelay 'e
  | AwaitPause "'e continuation"
  | PauseClosing "'e continuation"
  | AwaitThen "'e continuation"
  | Idle

datatype ('a, 'e) effect =
    FnCalled
  | OnSuccess 'a
  | OnError "'e rejection"
  | OnFail nat 'e
  | OnPause
  | OnContinue
  | Abort
  | Sleep int
  | PromiseResolve 'a
  | PromiseReject "'e rejection"

text \<open>
  The closure state of \<^verbatim>\<open>CreateRetryer\<close>. \<open>continueFn\<close> tells whether the variable of
  that name holds a function (it then closes over the \<^verbatim>\<open>continueResolve\<close> of the pause
  promise the phase refers to); \<open>promise\<close> is the state of the returned promise.
\<close>

record ('a, 'e) RetryerState =
  isRetryCancelled :: bool
  failureCount :: nat
  isResolved :: bool
  continueFn :: bool
  promise :: "('a, 'e) settlement"
  phase :: "'e phase"
  trace :: "('a, 'e) effect list"

text \<open>
  The two external gates as they read at one instant: \<^verbatim>\<open>document.visibilityState\<close>
  (\<open>None\<close> for \<^verbatim>\<open>undefined\<close>) and the answer of \<^verbatim>\<open>onlineManager.isOnline()\<close>, whose
  module is outside the sources and is therefore a parameter.
\<close>

record gates =
  visibilityState :: "string option"
  isOnline :: bool

text \<open>
  What can happen to an engine: the promise of the unit of work settles (\<open>Inl\<close> a
  rejection or a synchronous throw, \<open>Inr\<close> a value), the timer of \<^verbatim>\<open>sleep\<close> fires, the
  next queued promise callback runs, or one of the returned methods is called.
\<close>

datatype ('a, 'e) event =
    FnSettled "'e + 'a"
  | TimerFired
  | Microtask
  | Cancel "CancelOptions option"
  | Continue
  | CancelRetry
  | ContinueRetry

section \<open>The functions of the source\<close>

text \<open>
  \<^verbatim>\<open>FocusManager.isFocused\<close>:
  \<^verbatim>\<open>[undefined, "visible", "prerender"].includes(document.visibilityState)\<close>.
\<close>

definition isFocused :: "string option \<Rightarrow> bool" where
  "isFocused vs = (vs \<in> set [None, Some ''visible'', Some ''prerender''])"

text \<open>
  \<^verbatim>\<open>Math.min(1000 * 2 ** failureCount, 30000)\<close>. On doubles the product is exact up to
  the failure count 4 and at least 32000 (possibly \<^verbatim>\<open>Infinity\<close>) from 5 on, so the
  minimum is the one over the integers.
\<close>

definition defaultRetryDelay :: "nat \<Rightarrow> int" where
  "defaultRetryDelay n = min (1000 * 2 ^ n) 30000"

text \<open>\<^verbatim>\<open>(networkMode ?? "online") === "online" ? onlineManager.isOnline() : true\<close>\<close>

definition canFetch :: "NetworkMode option \<Rightarrow> gates \<Rightarrow> bool" where
  "canFetch nm g =
     (if (case nm of None \<Rightarrow> Online | Some m \<Rightarrow> m) = Online then isOnline g else True)"

text \<open>The constructor of \<^verbatim>\<open>CancelledError\<close>: \<^verbatim>\<open>options?.revert\<close> and \<^verbatim>\<open>options?.silent\<close>.\<close>

definition newCancelledError :: "CancelOptions option \<Rightarrow> 'e rejection" where
  "newCancelledError options =
     CancelledError (case options of None \<Rightarrow> None | Some opts \<Rightarrow> revert opts)
                    (case options of None \<Rightarrow> None | Some opts \<Rightarrow> silent opts)"

definition shouldPause :: "'e RetryerConfig \<Rightarrow> gates \<Rightarrow> bool" where
  "shouldPause config g =
     (\<not> isFocused (visibilityState g) \<or> (networkMode config = Some Always \<and> \<not> isOnline g))"

definition emit :: "('a, 'e) effect \<Rightarrow> ('a, 'e) RetryerState \<Rightarrow> ('a, 'e) RetryerState" where
  "emit x s = s\<lparr>trace := trace s @ [x]\<rparr>"

text \<open>Resolving the pause promise; a second call on the same promise does nothing.\<close>

definition continueResolve :: "('a, 'e) RetryerState \<Rightarrow> ('a, 'e) RetryerState" where
  "continueResolve s =
     (case phase s of AwaitPause k \<Rightarrow> s\<lparr>phase := PauseClosing k\<rparr> | _ \<Rightarrow> s)"

text \<open>The body of the function that \<^verbatim>\<open>pause\<close> stores in \<^verbatim>\<open>continueFn\<close>.\<close>

definition continueFnBody ::
  "'e RetryerConfig \<Rightarrow> gates \<Rightarrow> ('a, 'e) RetryerState \<Rightarrow> ('a, 'e) RetryerState" where
  "continueFnBody config g s =
     (if isResolved s \<or> \<not> shouldPause config g then continueResolve s else emit OnPause s)"

text \<open>\<^verbatim>\<open>continueFn?.()\<close>\<close>

definition callContinueFn ::
  "'e RetryerConfig \<Rightarrow> gates \<Rightarrow> ('a, 'e) RetryerState \<Rightarrow> ('a, 'e) RetryerState" where
  "callContinueFn config g s = (if continueFn s then continueFnBody config g s else s)"

text \<open>The resolvers of the outer promise settle it only while it is pending.\<close>

definition promiseResolve :: "'a \<Rightarrow> ('a, 'e) RetryerState \<Rightarrow> ('a, 'e) RetryerState" where
  "promiseResolve v s =
     emit (PromiseResolve v) (if promise s = Pending then s\<lparr>promise := Fulfilled v\<rparr> else s)"

definition promiseReject :: "'e rejection \<Rightarrow> ('a, 'e) RetryerState \<Rightarrow> ('a, 'e) RetryerState" where
  "promiseReject r s =
     emit (PromiseReject r) (if promise s = Pending then s\<lparr>promise := Rejected r\<rparr> else s)"

text \<open>
  \<^verbatim>\<open>resolve\<close> and \<^verbatim>\<open>reject\<close>: behind the guard, set the flag, notify, release a
  pending pause, settle the outer promise.
\<close>

definition resolve ::
  "'e RetryerConfig \<Rightarrow> gates \<Rightarrow> 'a \<Rightarrow> ('a, 'e) RetryerState \<Rightarrow> ('a, 'e) RetryerState" where
  "resolve config g v s =
     (if \<not> isResolved s
      then promiseResolve v
             (callContinueFn config g (emit (OnSuccess v) (s\<lparr>isResolved := True\<rparr>)))
      else s)"

definition reject ::
  "'e RetryerConfig \<Rightarrow> gates \<Rightarrow> 'e rejection \<Rightarrow> ('a, 'e) RetryerState \<Rightarrow> ('a, 'e) RetryerState" where
  "reject config g r s =
     (if \<not> isResolved s
      then promiseReject r
             (callContinueFn config g (emit (OnError r) (s\<lparr>isResolved := True\<rparr>)))
      else s)"

definition cancel ::
  "'e RetryerConfig \<Rightarrow> gates \<Rightarrow> CancelOptions option \<Rightarrow> ('a, 'e) RetryerState
     \<Rightarrow> ('a, 'e) RetryerState" where
  "cancel config g cancelOptions s =
     (if \<not> isResolved s
      then emit Abort (reject config g (newCancelledError cancelOptions) s)
      else s)"

definition cancelRetry :: "('a, 'e) RetryerState \<Rightarrow> ('a, 'e) RetryerState" where
  "cancelRetry s = s\<lparr>isRetryCancelled := True\<rparr>"

definition continueRetry :: "('a, 'e) RetryerState \<Rightarrow> ('a, 'e) RetryerState" where
  "continueRetry s = s\<lparr>isRetryCancelled := False\<rparr>"

text \<open>
  \<^verbatim>\<open>pause()\<close>: the executor stores the continuation; the promise stays unresolved. The
  argument is what the caller chains behind the returned promise.
\<close>

definition pause :: "'e continuation \<Rightarrow> ('a, 'e) RetryerState \<Rightarrow> ('a, 'e) RetryerState" where
  "pause k s = s\<lparr>continueFn := True, phase := AwaitPause k\<rparr>"

text \<open>The \<^verbatim>\<open>.then\<close> callback inside \<^verbatim>\<open>pause\<close>.\<close>

definition pauseThen :: "('a, 'e) RetryerState \<Rightarrow> ('a, 'e) RetryerState" where
  "pauseThen s =
     (let s1 = s\<lparr>continueFn := False\<rparr>
      in if \<not> isResolved s1 then emit OnContinue s1 else s1)"

text \<open>
  \<^verbatim>\<open>run\<close>: the guard and the call of \<^verbatim>\<open>config.fn\<close>. A synchronous throw is turned into
  a rejected promise, so both kinds of failure arrive as the event \<open>FnSettled (Inl e)\<close>.
\<close>

definition run :: "('a, 'e) RetryerState \<Rightarrow> ('a, 'e) RetryerState" where
  "run s =
     (if isResolved s then s\<lparr>phase := Idle\<rparr>
      else (emit FnCalled s)\<lparr>phase := AwaitFn\<rparr>)"

text \<open>
  \<^verbatim>\<open>config.retry ?? 3\<close>, the delay (\<^verbatim>\<open>config.retryDelay ?? defaultRetryDelay\<close>, called if
  it is a function) and \<^verbatim>\<open>shouldRetry\<close>, by the run-time type of the retry value.
\<close>

definition retryOrDefault :: "'e RetryerConfig \<Rightarrow> 'e RetryValue" where
  "retryOrDefault config = (case retry config of None \<Rightarrow> RetryNumber 3 | Some r \<Rightarrow> r)"

definition delayOf :: "'e RetryerConfig \<Rightarrow> nat \<Rightarrow> 'e \<Rightarrow> int" where
  "delayOf config n error =
     (case retryDelay config of
        None \<Rightarrow> defaultRetryDelay n
      | Some (DelayFunction f) \<Rightarrow> f n error
      | Some (DelayNumber d) \<Rightarrow> d)"

definition shouldRetry :: "'e RetryerConfig \<Rightarrow> nat \<Rightarrow> 'e \<Rightarrow> bool" where
  "shouldRetry config n error =
     (case retryOrDefault config of
        RetryBool b \<Rightarrow> b
      | RetryNumber m \<Rightarrow> int n < m
      | RetryFunction f \<Rightarrow> f n error)"

text \<open>The \<^verbatim>\<open>.catch\<close> callback of \<^verbatim>\<open>run\<close>.\<close>

definition onRejected ::
  "'e RetryerConfig \<Rightarrow> gates \<Rightarrow> 'e \<Rightarrow> ('a, 'e) RetryerState \<Rightarrow> ('a, 'e) RetryerState" where
  "onRejected config g error s =
     (if isResolved s then s
      else
        let delay = delayOf config (failureCount s) error in
        if isRetryCancelled s \<or> \<not> shouldRetry config (failureCount s) error
        then reject config g (WorkError error) s
        else
          let s1 = s\<lparr>failureCount := failureCount s + 1\<rparr>;
              s2 = emit (OnFail (failureCount s1) error) s1
          in (emit (Sleep delay) s2)\<lparr>phase := AwaitDelay error\<rparr>)"

text \<open>The first \<^verbatim>\<open>.then\<close> after \<^verbatim>\<open>sleep(delay)\<close>.\<close>

definition afterSleep ::
  "'e RetryerConfig \<Rightarrow> gates \<Rightarrow> 'e \<Rightarrow> ('a, 'e) RetryerState \<Rightarrow> ('a, 'e) RetryerState" where
  "afterSleep config g error s =
     (if shouldPause config g then pause (ThenRecheck error) s
      else s\<lparr>phase := AwaitThen (ThenRecheck error)\<rparr>)"

text \<open>The second \<^verbatim>\<open>.then\<close> after \<^verbatim>\<open>sleep(delay)\<close>.\<close>

definition recheck ::
  "'e RetryerConfig \<Rightarrow> gates \<Rightarrow> 'e \<Rightarrow> ('a, 'e) RetryerState \<Rightarrow> ('a, 'e) RetryerState" where
  "recheck config g error s =
     (if isRetryCancelled s then reject config g (WorkError error) s else run s)"

text \<open>
  One event. An event whose callback is not the pending one (a timer firing while no
  \<^verbatim>\<open>sleep\<close> is pending, say) cannot happen and leaves the state as it is.
\<close>

fun step ::
  "'e RetryerConfig \<Rightarrow> gates \<Rightarrow> ('a, 'e) event \<Rightarrow> ('a, 'e) RetryerState
     \<Rightarrow> ('a, 'e) RetryerState" where
  "step config g (FnSettled r) s =
     (case phase s of
        AwaitFn \<Rightarrow>
          (case r of
             Inr v \<Rightarrow> resolve config g v (s\<lparr>phase := Idle\<rparr>)
           | Inl e \<Rightarrow> onRejected config g e (s\<lparr>phase := Idle\<rparr>))
      | _ \<Rightarrow> s)"
| "step config g TimerFired s =
     (case phase s of AwaitDelay e \<Rightarrow> afterSleep config g e (s\<lparr>phase := Idle\<rparr>) | _ \<Rightarrow> s)"
| "step config g Microtask s =
     (case phase s of
        PauseClosing k \<Rightarrow> pauseThen (s\<lparr>phase := AwaitThen k\<rparr>)
      | AwaitThen ThenRun \<Rightarrow> run (s\<lparr>phase := Idle\<rparr>)
      | AwaitThen (ThenRecheck e) \<Rightarrow> recheck config g e (s\<lparr>phase := Idle\<rparr>)
      | _ \<Rightarrow> s)"
| "step config g (Cancel cancelOptions) s = cancel config g cancelOptions s"
| "step config g Continue s = callContinueFn config g s"
| "step config g CancelRetry s = cancelRetry s"
| "step config g ContinueRetry s = continueRetry s"

text \<open>A schedule: the events in the order they happen, each with the gates as they read then.\<close>

fun exec ::
  "'e RetryerConfig \<Rightarrow> (gates \<times> ('a, 'e) event) list \<Rightarrow> ('a, 'e) RetryerState
     \<Rightarrow> ('a, 'e) RetryerState" where
  "exec config [] s = s"
| "exec config ((g, ev) # evs) s = exec config evs (step config g ev s)"

definition initial :: "('a, 'e) RetryerState" where
  "initial =
     \<lparr>isRetryCancelled = False, failureCount = 0, isResolved = False, continueFn = False,
      promise = Pending, phase = Idle, trace = []\<rparr>"

text \<open>The body of \<^verbatim>\<open>CreateRetryer\<close> up to its \<^verbatim>\<open>return\<close>.\<close>

definition CreateRetryer :: "'e RetryerConfig \<Rightarrow> gates \<Rightarrow> ('a, 'e) RetryerState" where
  "CreateRetryer config g =
     (if canFetch (networkMode config) g then run initial else pause ThenRun initial)"

text \<open>Readings of a trace: the calls of the outer resolvers, of the unit of work, of \<^verbatim>\<open>onFail\<close>.\<close>

definition isSettle :: "('a, 'e) effect \<Rightarrow> bool" where
  "isSettle x = (case x of PromiseResolve v \<Rightarrow> True | PromiseReject r \<Rightarrow> True | _ \<Rightarrow> False)"

definition attempts :: "('a, 'e) effect list \<Rightarrow> nat" where
  "attempts tr = length (filter (\<lambda>x. x = FnCalled) tr)"

definition isOnFail :: "('a, 'e) effect \<Rightarrow> bool" where
  "isOnFail x = (case x of OnFail n e \<Rightarrow> True | _ \<Rightarrow> False)"

section \<open>Invariants and example inputs\<close>

text \<open>
  What holds of every state an engine can reach: the flag \<open>isResolved\<close> is set exactly
  when the promise has left \<open>Pending\<close>, the abort hook has only been called on a resolved
  engine, and the resolvers of the outer promise have been called once if the flag is
  set and never otherwise.
\<close>

definition settledOnce :: "('a, 'e) RetryerState \<Rightarrow> bool" where
  "settledOnce s =
     ((isResolved s \<longleftrightarrow> promise s \<noteq> Pending) \<and>
      (Abort \<in> set (trace s) \<longrightarrow> isResolved s) \<and>
      length (filter isSettle (trace s)) = (if isResolved s then 1 else 0))"

text \<open>
  An engine that was created paused and has not called the unit of work: either it still
  waits in the start-up pause, or it was cancelled there and its chain runs out.
\<close>

definition pausedAtStart :: "('a, 'e) RetryerState \<Rightarrow> bool" where
  "pausedAtStart s =
     (FnCalled \<notin> set (trace s) \<and>
      (if isResolved s
       then phase s = PauseClosing ThenRun \<or> phase s = AwaitThen ThenRun \<or> phase s = Idle
       else phase s = AwaitPause ThenRun \<and> continueFn s))"

text \<open>A schedule in which every call of \<^verbatim>\<open>continue()\<close> finds \<^verbatim>\<open>shouldPause()\<close> true.\<close>

definition neverResumed :: "'e RetryerConfig \<Rightarrow> (gates \<times> ('a, 'e) event) list \<Rightarrow> bool" where
  "neverResumed config evs = (\<forall>x \<in> set evs. snd x = Continue \<longrightarrow> shouldPause config (fst x))"

text \<open>
  The states of an engine that never retries: no \<^verbatim>\<open>onFail\<close> so far, and the number of
  calls of the unit of work is the one its phase stands for.
\<close>

definition singleAttempt :: "('a, 'e) RetryerState \<Rightarrow> bool" where
  "singleAttempt s =
     ((\<forall>x \<in> set (trace s). \<not> isOnFail x) \<and>
      (case phase s of
         AwaitFn \<Rightarrow> attempts (trace s) = 1
       | Idle \<Rightarrow> attempts (trace s) \<le> 1
       | AwaitPause ThenRun \<Rightarrow> attempts (trace s) = 0
       | PauseClosing ThenRun \<Rightarrow> attempts (trace s) = 0
       | AwaitThen ThenRun \<Rightarrow> attempts (trace s) = 0
       | _ \<Rightarrow> False))"

text \<open>A schedule of calls of \<^verbatim>\<open>cancelRetry()\<close> and \<^verbatim>\<open>continueRetry()\<close> only.\<close>

definition toggles :: "(gates \<times> ('a, 'e) event) list \<Rightarrow> bool" where
  "toggles evs = (\<forall>x \<in> set evs. snd x = CancelRetry \<or> snd x = ContinueRetry)"

definition focusedOnline :: gates where
  "focusedOnline = \<lparr>visibilityState = Some ''visible'', isOnline = True\<rparr>"

definition hiddenOffline :: gates where
  "hiddenOffline = \<lparr>visibilityState = Some ''hidden'', isOnline = False\<rparr>"

definition visibleOffline :: gates where
  "visibleOffline = \<lparr>visibilityState = Some ''visible'', isOnline = False\<rparr>"

definition defaults :: "string RetryerConfig" where
  "defaults = \<lparr>retry = None, retryDelay = None, networkMode = None\<rparr>"

text \<open>
  The part of the state that \<^verbatim>\<open>cancelRetry()\<close> and \<^verbatim>\<open>continueRetry()\<close> leave alone.
\<close>

definition core ::
  "('a, 'e) RetryerState \<Rightarrow> 'e phase \<times> bool \<times> ('a, 'e) settlement \<times> ('a, 'e) effect list \<times> bool" where
  "core s = (phase s, isResolved s, promise s, trace s, continueFn s)"

section \<open>Lemmas about single events and schedules\<close>

lemmas retryer_defs =
  emit_def continueResolve_def continueFnBody_def callContinueFn_def promiseResolve_def
  promiseReject_def resolve_def reject_def cancel_def cancelRetry_def continueRetry_def
  pause_def pauseThen_def run_def onRejected_def afterSleep_def recheck_def

lemmas retryer_splits = phase.splits continuation.splits sum.splits

lemmas example_defs =
  defaults_def focusedOnline_def hiddenOffline_def visibleOffline_def CreateRetryer_def
  initial_def canFetch_def isFocused_def shouldPause_def

lemmas policy_defs = shouldRetry_def retryOrDefault_def delayOf_def defaultRetryDelay_def

text \<open>A resolved engine stays resolved, and no event makes it do anything observable.\<close>

lemma resolved_step:
  "isResolved s \<Longrightarrow>
     isResolved (step config g ev s) \<and> trace (step config g ev s) = trace s \<and>
     promise (step config g ev s) = promise s"
  by (cases ev) (simp_all add: retryer_defs Let_def split: retryer_splits)

lemma resolved_exec:
  "isResolved s \<Longrightarrow>
     isResolved (exec config evs s) \<and> trace (exec config evs s) = trace s \<and>
     promise (exec config evs s) = promise s"
proof (induction evs arbitrary: s)
  case Nil
  then show ?case by simp
next
  case (Cons a evs)
  obtain g ev where a: "a = (g, ev)" by (cases a)
  from Cons.prems have r: "isResolved (step config g ev s)" "trace (step config g ev s) = trace s"
    "promise (step config g ev s) = promise s"
    using resolved_step[of s config g ev] by simp_all
  from Cons.IH[OF r(1)] r a show ?case by simp
qed

lemma settledOnce_step: "settledOnce s \<Longrightarrow> settledOnce (step config g ev s)"
  by (cases ev)
    (auto simp add: settledOnce_def isSettle_def retryer_defs Let_def split: retryer_splits)

lemma settledOnce_create: "settledOnce (CreateRetryer config g)"
  by (simp add: settledOnce_def CreateRetryer_def initial_def isSettle_def retryer_defs)

lemma settledOnce_exec: "settledOnce s \<Longrightarrow> settledOnce (exec config evs s)"
proof (induction evs arbitrary: s)
  case Nil
  then show ?case by simp
next
  case (Cons a evs)
  obtain g ev where a: "a = (g, ev)" by (cases a)
  show ?case using Cons.IH[OF settledOnce_step[OF Cons.prems, of config g ev]] a by simp
qed

lemma settledOnce_reachable: "settledOnce (exec config evs (CreateRetryer config g))"
  by (rule settledOnce_exec[OF settledOnce_create])

text \<open>An engine paused at start-up calls the unit of work only after a resuming \<^verbatim>\<open>continue()\<close>.\<close>

lemma pausedAtStart_step:
  "pausedAtStart s \<Longrightarrow> (ev = Continue \<longrightarrow> shouldPause config g) \<Longrightarrow>
     pausedAtStart (step config g ev s)"
  by (cases ev)
    (auto simp add: pausedAtStart_def retryer_defs Let_def split: retryer_splits if_splits)

lemma pausedAtStart_exec:
  "pausedAtStart s \<Longrightarrow> neverResumed config evs \<Longrightarrow> pausedAtStart (exec config evs s)"
proof (induction evs arbitrary: s)
  case Nil
  then show ?case by simp
next
  case (Cons a evs)
  obtain g ev where a: "a = (g, ev)" by (cases a)
  from Cons.prems(2) a have h: "ev = Continue \<longrightarrow> shouldPause config g"
    and t: "neverResumed config evs"
    by (simp_all add: neverResumed_def)
  show ?case using Cons.IH[OF pausedAtStart_step[OF Cons.prems(1) h] t] a by simp
qed

text \<open>With \<^verbatim>\<open>retry\<close> false or 0 the engine never leaves its first attempt.\<close>

lemma singleAttempt_step:
  "retry config = Some (RetryBool False) \<or> retry config = Some (RetryNumber 0) \<Longrightarrow>
     singleAttempt s \<Longrightarrow> singleAttempt (step config g ev s)"
  by (cases ev)
    (auto simp add: singleAttempt_def attempts_def isOnFail_def shouldRetry_def retryOrDefault_def
      retryer_defs Let_def split: retryer_splits if_splits)

lemma singleAttempt_exec:
  "retry config = Some (RetryBool False) \<or> retry config = Some (RetryNumber 0) \<Longrightarrow>
     singleAttempt s \<Longrightarrow> singleAttempt (exec config evs s)"
proof (induction evs arbitrary: s)
  case Nil
  then show ?case by simp
next
  case (Cons a evs)
  obtain g ev where a: "a = (g, ev)" by (cases a)
  show ?case
    using Cons.IH[OF Cons.prems(1) singleAttempt_step[OF Cons.prems, of g ev]] a by simp
qed

lemma singleAttempt_create: "singleAttempt (CreateRetryer config g)"
  by (simp add: singleAttempt_def CreateRetryer_def initial_def attempts_def isOnFail_def
      retryer_defs)

text \<open>
  The retry branch, link by link, on the part of the state that the retry flag does not
  touch.
\<close>

lemma exec_append: "exec config (xs @ ys) s = exec config ys (exec config xs s)"
  by (induction xs arbitrary: s) auto

lemma toggles_exec:
  "toggles cs \<Longrightarrow>
     core (exec config cs s) = core s \<and> failureCount (exec config cs s) = failureCount s"
proof (induction cs arbitrary: s)
  case Nil
  then show ?case by simp
next
  case (Cons a cs)
  obtain g ev where a: "a = (g, ev)" by (cases a)
  from Cons.prems a have ev: "ev = CancelRetry \<or> ev = ContinueRetry" and rest: "toggles cs"
    by (simp_all add: toggles_def)
  from ev have "core (step config g ev s) = core s \<and>
      failureCount (step config g ev s) = failureCount s"
    by (auto simp add: core_def cancelRetry_def continueRetry_def)
  with Cons.IH[OF rest, of "step config g ev s"] a show ?case by simp
qed

lemma core_failed:
  "core s = (AwaitFn, False, Pending, tr, cf) \<Longrightarrow> \<not> isRetryCancelled s \<Longrightarrow>
   shouldRetry config (failureCount s) e \<Longrightarrow>
     core (step config g (FnSettled (Inl e)) s) =
       (AwaitDelay e, False, Pending,
        tr @ [OnFail (failureCount s + 1) e, Sleep (delayOf config (failureCount s) e)], cf)"
  by (simp add: core_def retryer_defs Let_def)

lemma core_timer:
  "core s = (AwaitDelay e, False, Pending, tr, cf) \<Longrightarrow>
     core (step config g TimerFired s) =
       (if shouldPause config g then (AwaitPause (ThenRecheck e), False, Pending, tr, True)
        else (AwaitThen (ThenRecheck e), False, Pending, tr, cf))"
  by (simp add: core_def retryer_defs)

lemma core_continue:
  "core s = (AwaitPause k, False, Pending, tr, True) \<Longrightarrow> \<not> shouldPause config g \<Longrightarrow>
     core (step config g Continue s) = (PauseClosing k, False, Pending, tr, True)"
  by (simp add: core_def retryer_defs)

lemma core_pauseThen:
  "core s = (PauseClosing k, False, Pending, tr, True) \<Longrightarrow>
     core (step config g Microtask s) = (AwaitThen k, False, Pending, tr @ [OnContinue], False)"
  by (simp add: core_def retryer_defs Let_def)

lemma core_recheck:
  "core s = (AwaitThen (ThenRecheck e), False, Pending, tr, cf) \<Longrightarrow>
     core (step config g Microtask s) =
       (if isRetryCancelled s
        then (Idle, True, Rejected (WorkError e),
              tr @ [OnError (WorkError e), PromiseReject (WorkError e)], cf)
        else (AwaitFn, False, Pending, tr @ [FnCalled], cf))"
  by (simp add: core_def retryer_defs)

section \<open>The claims\<close>

text \<open>
  C1. The promise settles at most once. In every state \<open>s\<close> an engine reaches, under any
  schedule of completions and control calls, the resolvers of the outer promise have
  been called at most once, and \<open>isResolved\<close> is set exactly when the promise has left
  \<open>Pending\<close> (whether it is ever set depends on the schedule: a paused engine that is
  never continued stays unresolved). Once the flag is set it stays set under every
  further schedule, the
  promise keeps its outcome and nothing observable happens any more; \<^verbatim>\<open>resolve\<close>,
  \<^verbatim>\<open>reject\<close> and \<^verbatim>\<open>cancel\<close> leave the state as it is, and \<^verbatim>\<open>continue\<close>, \<^verbatim>\<open>cancelRetry\<close>
  and \<^verbatim>\<open>continueRetry\<close> leave the outcome as it is.
\<close>

theorem promise_settles_at_most_once:
  "let s = exec config evs (CreateRetryer config g0); s' = exec config evs' s in
     length (filter isSettle (trace s)) \<le> 1 \<and>
     (isResolved s \<longleftrightarrow> promise s \<noteq> Pending) \<and>
     (isResolved s \<longrightarrow>
        isResolved s' \<and> promise s' = promise s \<and> trace s' = trace s \<and>
        resolve config g v s = s \<and> reject config g r s = s \<and>
        cancel config g cancelOptions s = s \<and>
        promise (callContinueFn config g s) = promise s \<and>
        promise (cancelRetry s) = promise s \<and> promise (continueRetry s) = promise s)"
proof -
  define s where "s = exec config evs (CreateRetryer config g0)"
  have inv: "settledOnce s" unfolding s_def by (rule settledOnce_reachable)
  have a: "length (filter isSettle (trace s)) \<le> 1" using inv by (simp add: settledOnce_def)
  have b: "isResolved s \<longleftrightarrow> promise s \<noteq> Pending" using inv by (simp add: settledOnce_def)
  have c: "isResolved (exec config evs' s) \<and> promise (exec config evs' s) = promise s \<and>
           trace (exec config evs' s) = trace s" if "isResolved s"
    using resolved_exec[OF that, of config evs'] by simp
  have d: "resolve config g v s = s \<and> reject config g r s = s \<and>
        cancel config g cancelOptions s = s \<and>
        promise (callContinueFn config g s) = promise s \<and>
        promise (cancelRetry s) = promise s \<and> promise (continueRetry s) = promise s"
    if "isResolved s"
    using that by (simp add: retryer_defs split: retryer_splits)
  show ?thesis unfolding Let_def s_def[symmetric] using a b c d by blast
qed

theorem promise_settles_at_most_once_witness:
  "isResolved (exec defaults [(focusedOnline, FnSettled (Inr True))]
       (CreateRetryer defaults focusedOnline)) \<and>
   promise (exec defaults
       [(focusedOnline, Cancel None), (hiddenOffline, Continue),
        (focusedOnline, FnSettled (Inl ''late''))]
       (exec defaults [(focusedOnline, FnSettled (Inr True))]
          (CreateRetryer defaults focusedOnline)))
     = Fulfilled True"
  using promise_settles_at_most_once[of defaults "[(focusedOnline, FnSettled (Inr True))]"
      focusedOnline
      "[(focusedOnline, Cancel None), (hiddenOffline, Continue),
        (focusedOnline, FnSettled (Inl ''late''))]"]
  by (simp add: example_defs retryer_defs)

text \<open>
  C2. With \<^verbatim>\<open>retry\<close> 3, or no \<^verbatim>\<open>retry\<close> given, an engine that starts at once, whose unit
  of work fails each time it is called (with the errors \<open>e1\<close>, \<open>e2\<close>, \<open>e3\<close>, \<open>e4\<close>)
  and which is not paused after any of its delays, calls the unit of work exactly four
  times, calls \<^verbatim>\<open>onFail\<close> exactly three times, with the failure counts 1, 2, 3 in that
  order, and rejects the promise with the fourth error. The delays are those of the
  delay policy at the failure counts 0, 1, 2. Nothing is called after that, whatever
  happens later.
\<close>

theorem three_retries_then_reject:
  fixes config :: "'e RetryerConfig" and evs :: "(gates \<times> ('a, 'e) event) list"
  assumes "retry config = None \<or> retry config = Some (RetryNumber 3)"
    and "canFetch (networkMode config) g0"
    and "\<not> shouldPause config g1" and "\<not> shouldPause config g2" and "\<not> shouldPause config g3"
  shows
  "let s = exec config
             [(h1, FnSettled (Inl e1)), (g1, TimerFired), (h2, Microtask),
              (h3, FnSettled (Inl e2)), (g2, TimerFired), (h4, Microtask),
              (h5, FnSettled (Inl e3)), (g3, TimerFired), (h6, Microtask),
              (h7, FnSettled (Inl e4))]
             (CreateRetryer config g0) in
     trace s =
       [FnCalled, OnFail 1 e1, Sleep (delayOf config 0 e1),
        FnCalled, OnFail 2 e2, Sleep (delayOf config 1 e2),
        FnCalled, OnFail 3 e3, Sleep (delayOf config 2 e3),
        FnCalled, OnError (WorkError e4), PromiseReject (WorkError e4)] \<and>
     attempts (trace s) = 4 \<and>
     filter isOnFail (trace s) = [OnFail 1 e1, OnFail 2 e2, OnFail 3 e3] \<and>
     promise s = Rejected (WorkError e4) \<and> phase s = Idle \<and> failureCount s = 3 \<and>
     trace (exec config evs s) = trace s"
proof -
  define s :: "('a, 'e) RetryerState" where "s = exec config
             [(h1, FnSettled (Inl e1)), (g1, TimerFired), (h2, Microtask),
              (h3, FnSettled (Inl e2)), (g2, TimerFired), (h4, Microtask),
              (h5, FnSettled (Inl e3)), (g3, TimerFired), (h6, Microtask),
              (h7, FnSettled (Inl e4))]
             (CreateRetryer config g0)"
  have sr: "shouldRetry config n e = (n < 3)" for n e
    using assms(1) by (auto simp add: shouldRetry_def retryOrDefault_def)
  have eq: "s = initial\<lparr>failureCount := 3, isResolved := True, promise := Rejected (WorkError e4),
      trace := [FnCalled, OnFail 1 e1, Sleep (delayOf config 0 e1),
        FnCalled, OnFail 2 e2, Sleep (delayOf config 1 e2),
        FnCalled, OnFail 3 e3, Sleep (delayOf config 2 e3),
        FnCalled, OnError (WorkError e4), PromiseReject (WorkError e4)]\<rparr>"
    unfolding s_def using assms(2-5)
    by (simp add: CreateRetryer_def initial_def sr retryer_defs Let_def eval_nat_numeral)
  have fields: "trace s =
       [FnCalled, OnFail 1 e1, Sleep (delayOf config 0 e1),
        FnCalled, OnFail 2 e2, Sleep (delayOf config 1 e2),
        FnCalled, OnFail 3 e3, Sleep (delayOf config 2 e3),
        FnCalled, OnError (WorkError e4), PromiseReject (WorkError e4)]"
    "promise s = Rejected (WorkError e4)" "phase s = Idle" "failureCount s = 3" "isResolved s"
    by (simp_all add: eq initial_def)
  have counts: "attempts (trace s) = 4"
    "filter isOnFail (trace s) = [OnFail 1 e1, OnFail 2 e2, OnFail 3 e3]"
    by (simp_all add: fields(1) attempts_def isOnFail_def)
  have frozen: "trace (exec config evs s) = trace s"
    using resolved_exec[OF fields(5), of config evs] by simp
  show ?thesis unfolding Let_def s_def[symmetric] using fields counts frozen by blast
qed

theorem three_retries_then_reject_witness:
  "trace (exec defaults
             [(focusedOnline, FnSettled (Inl ''e1'')), (focusedOnline, TimerFired), (focusedOnline, Microtask),
              (focusedOnline, FnSettled (Inl ''e2'')), (focusedOnline, TimerFired), (focusedOnline, Microtask),
              (focusedOnline, FnSettled (Inl ''e3'')), (focusedOnline, TimerFired), (focusedOnline, Microtask),
              (focusedOnline, FnSettled (Inl ''e4''))]
             (CreateRetryer defaults focusedOnline :: (bool, string) RetryerState)) =
       [FnCalled, OnFail 1 ''e1'', Sleep 1000,
        FnCalled, OnFail 2 ''e2'', Sleep 2000,
        FnCalled, OnFail 3 ''e3'', Sleep 4000,
        FnCalled, OnError (WorkError ''e4''), PromiseReject (WorkError ''e4'')]"
proof -
  have p1: "retry defaults = None \<or> retry defaults = Some (RetryNumber 3)"
    by (simp add: defaults_def)
  have p2: "canFetch (networkMode defaults) focusedOnline"
    by (simp add: example_defs)
  have p3: "\<not> shouldPause defaults focusedOnline"
    by (simp add: example_defs)
  have d: "delayOf defaults 0 e = 1000" "delayOf defaults 1 e = 2000"
    "delayOf defaults 2 e = 4000" for e :: string
    by (simp_all add: delayOf_def defaults_def defaultRetryDelay_def)
  note t = three_retries_then_reject[OF p1 p2 p3 p3 p3, where ?h1.0 = focusedOnline
      and ?h2.0 = focusedOnline and ?h3.0 = focusedOnline
      and ?h4.0 = focusedOnline and ?h5.0 = focusedOnline and ?h6.0 = focusedOnline
      and ?h7.0 = focusedOnline and ?e1.0 = "''e1''" and ?e2.0 = "''e2''"
      and ?e3.0 = "''e3''" and ?e4.0 = "''e4''" and evs = "[]", unfolded Let_def]
  show ?thesis using t[THEN conjunct1] by (simp only: d)
qed

text \<open>
  C3. In every state an engine reaches (so also while a delay or a pause is pending),
  \<^verbatim>\<open>cancel(options)\<close> on an unresolved engine rejects the pending promise at once with a
  \<^verbatim>\<open>CancelledError\<close> whose \<^verbatim>\<open>revert\<close> and \<^verbatim>\<open>silent\<close> are those of the options
  (\<^verbatim>\<open>undefined\<close> when no options are given), and then calls the abort hook: the call
  appends \<^verbatim>\<open>onError\<close>, the rejection and \<^verbatim>\<open>abort\<close> to the trace, in this order. The
  abort hook was not called before, and nothing is called afterwards, so it is called
  exactly once. On a resolved engine \<^verbatim>\<open>cancel\<close> changes nothing, and the abort hook is
  not called.
\<close>

theorem cancel_rejects_then_aborts:
  fixes config :: "'e RetryerConfig" and evs :: "(gates \<times> ('a, 'e) event) list"
  shows
  "let s = exec config evs (CreateRetryer config g0);
       s' = step config g (Cancel cancelOptions) s;
       err = CancelledError (case cancelOptions of None \<Rightarrow> None | Some opts \<Rightarrow> revert opts)
                            (case cancelOptions of None \<Rightarrow> None | Some opts \<Rightarrow> silent opts) in
     (\<not> isResolved s \<longrightarrow>
        promise s = Pending \<and> promise s' = Rejected err \<and> isResolved s' \<and>
        trace s' = trace s @ [OnError err, PromiseReject err, Abort] \<and>
        Abort \<notin> set (trace s) \<and>
        trace (exec config evs' s') = trace s' \<and>
        promise (exec config evs' s') = Rejected err) \<and>
     (isResolved s \<longrightarrow> s' = s)"
proof -
  define s where "s = exec config evs (CreateRetryer config g0)"
  define s' where "s' = step config g (Cancel cancelOptions) s"
  define err :: "'e rejection" where "err = newCancelledError cancelOptions"
  have inv: "settledOnce s" unfolding s_def by (rule settledOnce_reachable)
  have open_case: "promise s = Pending \<and> promise s' = Rejected err \<and> isResolved s' \<and>
        trace s' = trace s @ [OnError err, PromiseReject err, Abort] \<and>
        Abort \<notin> set (trace s)" if "\<not> isResolved s"
    using that inv unfolding s'_def err_def
    by (auto simp add: settledOnce_def retryer_defs split: retryer_splits)
  have later: "trace (exec config evs' s') = trace s' \<and> promise (exec config evs' s') = Rejected err"
    if "\<not> isResolved s"
    using open_case[OF that] resolved_exec[of s' config evs'] by simp
  have closed_case: "s' = s" if "isResolved s"
    using that unfolding s'_def by (simp add: cancel_def)
  show ?thesis
    unfolding Let_def s_def[symmetric] s'_def[symmetric]
      err_def[unfolded newCancelledError_def, symmetric]
    using open_case later closed_case by blast
qed

theorem cancel_rejects_then_aborts_witness:
  "promise (step defaults focusedOnline (Cancel (Some \<lparr>revert = Some True, silent = Some False\<rparr>))
      (exec defaults [(focusedOnline, FnSettled (Inl ''e1''))]
         (CreateRetryer defaults focusedOnline :: (bool, string) RetryerState)))
     = Rejected (CancelledError (Some True) (Some False)) \<and>
   trace (step defaults focusedOnline (Cancel (Some \<lparr>revert = Some True, silent = Some False\<rparr>))
      (exec defaults [(focusedOnline, FnSettled (Inl ''e1''))]
         (CreateRetryer defaults focusedOnline :: (bool, string) RetryerState)))
     = [FnCalled, OnFail 1 ''e1'', Sleep 1000,
        OnError (CancelledError (Some True) (Some False)),
        PromiseReject (CancelledError (Some True) (Some False)), Abort] \<and>
   phase (exec defaults [(focusedOnline, FnSettled (Inl ''e1''))]
         (CreateRetryer defaults focusedOnline :: (bool, string) RetryerState)) = AwaitDelay ''e1''"
  using cancel_rejects_then_aborts[where config = defaults
      and evs = "[(focusedOnline, FnSettled (Inl ''e1''))]" and ?g0.0 = focusedOnline
      and g = focusedOnline
      and cancelOptions = "Some \<lparr>revert = Some True, silent = Some False\<rparr>" and evs' = "[]"]
  by (simp add: example_defs retryer_defs policy_defs Let_def)

text \<open>
  C4. What the code does on entering a pause. At start-up, and after a delay, \<^verbatim>\<open>pause()\<close>
  stores the continuation in \<^verbatim>\<open>continueFn\<close> and calls nothing: the trace is unchanged,
  so \<^verbatim>\<open>onPause\<close> is not invoked at the moment of entering the pause. \<^verbatim>\<open>onPause\<close> is
  invoked only from inside the continuation, when \<^verbatim>\<open>continue()\<close> is called on an
  unresolved engine and \<^verbatim>\<open>shouldPause()\<close> still holds.
\<close>

theorem pause_entry_skips_onPause:
  "(\<not> canFetch (networkMode config) g0 \<longrightarrow>
      phase (CreateRetryer config g0) = AwaitPause ThenRun \<and>
      continueFn (CreateRetryer config g0) \<and>
      trace (CreateRetryer config g0) = []) \<and>
   (phase s = AwaitDelay e \<and> shouldPause config g \<longrightarrow>
      phase (step config g TimerFired s) = AwaitPause (ThenRecheck e) \<and>
      continueFn (step config g TimerFired s) \<and>
      trace (step config g TimerFired s) = trace s) \<and>
   (continueFn s \<and> \<not> isResolved s \<and> shouldPause config g \<longrightarrow>
      step config g Continue s = s\<lparr>trace := trace s @ [OnPause]\<rparr>)"
  by (simp add: CreateRetryer_def initial_def retryer_defs)

theorem pause_entry_skips_onPause_witness:
  "trace (CreateRetryer defaults hiddenOffline :: (bool, string) RetryerState) = [] \<and>
   continueFn (CreateRetryer defaults hiddenOffline :: (bool, string) RetryerState) \<and>
   trace (step defaults hiddenOffline TimerFired
            (exec defaults [(focusedOnline, FnSettled (Inl ''e1''))]
               (CreateRetryer defaults focusedOnline :: (bool, string) RetryerState)))
     = [FnCalled, OnFail 1 ''e1'', Sleep 1000] \<and>
   trace (step defaults hiddenOffline Continue
            (CreateRetryer defaults hiddenOffline :: (bool, string) RetryerState)) = [OnPause]"
  using pause_entry_skips_onPause[where config = defaults and ?g0.0 = hiddenOffline
      and g = hiddenOffline and e = "''e1''"
      and s = "exec defaults [(focusedOnline, FnSettled (Inl ''e1''))]
               (CreateRetryer defaults focusedOnline :: (bool, string) RetryerState)"]
    pause_entry_skips_onPause[where config = defaults and ?g0.0 = hiddenOffline
      and g = hiddenOffline
      and s = "CreateRetryer defaults hiddenOffline :: (bool, string) RetryerState"]
  by (simp add: example_defs retryer_defs policy_defs Let_def)

text \<open>
  C5. Take a reachable engine whose attempt is in flight and which decides to retry when
  that attempt fails with \<open>e\<close>. Let the delay complete, and, if \<^verbatim>\<open>shouldPause()\<close> holds
  then, let a later \<^verbatim>\<open>continue()\<close> close the pause; in between, \<^verbatim>\<open>cancelRetry()\<close> and
  \<^verbatim>\<open>continueRetry()\<close> may be called any number of times. The engine then waits for the
  re-check with the error \<open>e\<close>, having called \<^verbatim>\<open>onFail\<close>, \<^verbatim>\<open>sleep\<close> and, after a pause,
  \<^verbatim>\<open>onContinue\<close>. At the re-check, if \<open>isRetryCancelled\<close> is set the promise is rejected
  with \<open>e\<close> itself and the unit of work is not called; otherwise the unit of work is
  called again and the promise stays pending.
\<close>

theorem recheck_rejects_with_original_error:
  fixes config :: "'e RetryerConfig" and evs :: "(gates \<times> ('a, 'e) event) list"
  assumes "s = exec config evs (CreateRetryer config g0)"
    and "phase s = AwaitFn" and "\<not> isResolved s" and "\<not> isRetryCancelled s"
    and "shouldRetry config (failureCount s) e"
    and "toggles cs1" and "toggles cs2" and "toggles cs3" and "toggles cs4"
    and "\<not> shouldPause config g2"
    and "wait =
           (if shouldPause config g1
            then cs1 @ (g1, TimerFired) # cs2 @ (g2, Continue) # cs3 @ (h1, Microtask) # cs4
            else cs1 @ (g1, TimerFired) # cs2)"
    and "t = exec config ((h0, FnSettled (Inl e)) # wait) s"
    and "t' = step config h2 Microtask t"
  shows
    "phase t = AwaitThen (ThenRecheck e) \<and>
     trace t = trace s @ [OnFail (failureCount s + 1) e, Sleep (delayOf config (failureCount s) e)]
                 @ (if shouldPause config g1 then [OnContinue] else []) \<and>
     (if isRetryCancelled t
      then promise t' = Rejected (WorkError e) \<and> phase t' = Idle \<and>
           trace t' = trace t @ [OnError (WorkError e), PromiseReject (WorkError e)]
      else promise t' = Pending \<and> phase t' = AwaitFn \<and> trace t' = trace t @ [FnCalled])"
proof -
  define tr where
    "tr = trace s @ [OnFail (failureCount s + 1) e, Sleep (delayOf config (failureCount s) e)]"
  have "settledOnce s" unfolding assms(1) by (rule settledOnce_reachable)
  with assms(3) have pend: "promise s = Pending" by (simp add: settledOnce_def)
  have c0: "core s = (AwaitFn, False, Pending, trace s, continueFn s)"
    using assms(2,3) pend by (simp add: core_def)
  define s1 where "s1 = exec config cs1 (step config h0 (FnSettled (Inl e)) s)"
  have c1: "core s1 = (AwaitDelay e, False, Pending, tr, continueFn s)"
    unfolding s1_def tr_def using toggles_exec[OF assms(6)] core_failed[OF c0 assms(4,5)] by simp
  define s2 where "s2 = exec config cs2 (step config g1 TimerFired s1)"
  have c2: "core s2 =
       (if shouldPause config g1 then (AwaitPause (ThenRecheck e), False, Pending, tr, True)
        else (AwaitThen (ThenRecheck e), False, Pending, tr, continueFn s))"
    unfolding s2_def using toggles_exec[OF assms(7)] core_timer[OF c1] by simp
  have ct: "core t = (AwaitThen (ThenRecheck e), False, Pending,
              tr @ (if shouldPause config g1 then [OnContinue] else []),
              (if shouldPause config g1 then False else continueFn s))"
  proof (cases "shouldPause config g1")
    case False
    then have "t = s2" by (simp add: assms(11,12) s2_def s1_def exec_append)
    with c2 False show ?thesis by simp
  next
    case True
    define s3 where "s3 = exec config cs3 (step config g2 Continue s2)"
    define s4 where "s4 = exec config cs4 (step config h1 Microtask s3)"
    from c2 True have c2': "core s2 = (AwaitPause (ThenRecheck e), False, Pending, tr, True)"
      by simp
    have c3: "core s3 = (PauseClosing (ThenRecheck e), False, Pending, tr, True)"
      unfolding s3_def using toggles_exec[OF assms(8)] core_continue[OF c2' assms(10)] by simp
    have c4: "core s4 = (AwaitThen (ThenRecheck e), False, Pending, tr @ [OnContinue], False)"
      unfolding s4_def using toggles_exec[OF assms(9)] core_pauseThen[OF c3] by simp
    from True have "t = s4" by (simp add: assms(11,12) s4_def s3_def s2_def s1_def exec_append)
    with c4 True show ?thesis by simp
  qed
  have ct': "core t' =
       (if isRetryCancelled t
        then (Idle, True, Rejected (WorkError e),
              trace t @ [OnError (WorkError e), PromiseReject (WorkError e)],
              continueFn t)
        else (AwaitFn, False, Pending, trace t @ [FnCalled], continueFn t))"
    unfolding assms(13) using core_recheck[of t e "trace t" "continueFn t" config h2] ct
    by (simp add: core_def)
  show ?thesis using ct ct' by (simp add: core_def tr_def split: if_splits)
qed

theorem recheck_rejects_with_original_error_witness:
  "promise (step defaults focusedOnline Microtask
      (exec defaults
         [(focusedOnline, FnSettled (Inl ''e1'')), (hiddenOffline, TimerFired),
          (focusedOnline, CancelRetry), (focusedOnline, Continue), (focusedOnline, Microtask)]
         (CreateRetryer defaults focusedOnline :: (bool, string) RetryerState)))
     = Rejected (WorkError ''e1'')"
proof -
  define s :: "(bool, string) RetryerState" where "s = exec defaults [] (CreateRetryer defaults focusedOnline)"
  define t where "t = exec defaults
         [(focusedOnline, FnSettled (Inl ''e1'')), (hiddenOffline, TimerFired),
          (focusedOnline, CancelRetry), (focusedOnline, Continue), (focusedOnline, Microtask)] s"
  define t' where "t' = step defaults focusedOnline Microtask t"
  have s: "s = CreateRetryer defaults focusedOnline" by (simp add: s_def)
  have p: "phase s = AwaitFn" "\<not> isResolved s" "\<not> isRetryCancelled s"
    "shouldRetry defaults (failureCount s) ''e1''"
    by (simp_all add: s example_defs retryer_defs policy_defs)
  have tg: "toggles ([] :: (gates \<times> (bool, string) event) list)"
    "toggles [(focusedOnline, CancelRetry :: (bool, string) event)]"
    by (simp_all add: toggles_def)
  have go: "\<not> shouldPause defaults focusedOnline" by (simp add: example_defs)
  have w: "[(hiddenOffline, TimerFired), (focusedOnline, CancelRetry), (focusedOnline, Continue),
            (focusedOnline, Microtask :: (bool, string) event)] =
           (if shouldPause defaults hiddenOffline
            then [] @ (hiddenOffline, TimerFired) # [(focusedOnline, CancelRetry)] @
                 (focusedOnline, Continue) # [] @ (focusedOnline, Microtask) # []
            else [] @ (hiddenOffline, TimerFired) # [(focusedOnline, CancelRetry)])"
    by (simp add: example_defs)
  note r = recheck_rejects_with_original_error[OF s_def p tg(1) tg(2) tg(1) tg(1) go w t_def t'_def]
  have c: "isRetryCancelled t"
    by (simp add: t_def s example_defs retryer_defs policy_defs Let_def)
  from r c have "promise t' = Rejected (WorkError ''e1'')" by simp
  then show ?thesis by (simp add: t'_def t_def s)
qed

text \<open>
  C6. If \<^verbatim>\<open>canFetch\<close> holds at construction, the unit of work is called at once. If not
  (which happens exactly when the mode is \<^verbatim>\<open>online\<close> or not given and the progress gate
  reports offline), construction calls nothing and leaves the engine in the start-up
  pause with a continuation stored; the unit of work is then not called under any
  schedule in which every \<^verbatim>\<open>continue()\<close> finds \<^verbatim>\<open>shouldPause()\<close> true, and it is
  called once a \<^verbatim>\<open>continue()\<close> that finds \<^verbatim>\<open>shouldPause()\<close> false has closed the pause.
\<close>

theorem startup_policy:
  "(canFetch (networkMode config) g0 \<longrightarrow>
      trace (CreateRetryer config g0) = [FnCalled] \<and> phase (CreateRetryer config g0) = AwaitFn) \<and>
   (\<not> canFetch (networkMode config) g0 \<longrightarrow>
      trace (CreateRetryer config g0) = [] \<and>
      phase (CreateRetryer config g0) = AwaitPause ThenRun \<and>
      continueFn (CreateRetryer config g0) \<and>
      (neverResumed config evs \<longrightarrow>
         FnCalled \<notin> set (trace (exec config evs (CreateRetryer config g0)))) \<and>
      (\<not> shouldPause config g \<longrightarrow>
         trace (exec config [(g, Continue), (g', Microtask), (g'', Microtask)]
                  (CreateRetryer config g0)) = [OnContinue, FnCalled])) \<and>
   (\<not> canFetch (networkMode config) g0 \<longleftrightarrow>
      networkMode config \<in> {None, Some Online} \<and> \<not> isOnline g0)"
proof -
  have a: "trace (CreateRetryer config g0) = [FnCalled] \<and> phase (CreateRetryer config g0) = AwaitFn"
    if "canFetch (networkMode config) g0"
    using that by (simp add: CreateRetryer_def initial_def retryer_defs)
  have b: "trace (CreateRetryer config g0) = [] \<and>
      phase (CreateRetryer config g0) = AwaitPause ThenRun \<and>
      continueFn (CreateRetryer config g0)" if "\<not> canFetch (networkMode config) g0"
    using that by (simp add: CreateRetryer_def initial_def retryer_defs)
  have p: "pausedAtStart (CreateRetryer config g0)" if "\<not> canFetch (networkMode config) g0"
    using that by (simp add: pausedAtStart_def CreateRetryer_def initial_def retryer_defs)
  have c: "FnCalled \<notin> set (trace (exec config evs (CreateRetryer config g0)))"
    if "\<not> canFetch (networkMode config) g0" "neverResumed config evs"
    using pausedAtStart_exec[OF p[OF that(1)] that(2)] by (simp add: pausedAtStart_def)
  have d: "trace (exec config [(g, Continue), (g', Microtask), (g'', Microtask)]
                  (CreateRetryer config g0)) = [OnContinue, FnCalled]"
    if "\<not> canFetch (networkMode config) g0" "\<not> shouldPause config g"
    using that by (simp add: CreateRetryer_def initial_def retryer_defs)
  have e: "\<not> canFetch (networkMode config) g0 \<longleftrightarrow>
      networkMode config \<in> {None, Some Online} \<and> \<not> isOnline g0"
    by (cases "networkMode config") (auto simp add: canFetch_def)
  show ?thesis using a b c d e by blast
qed

theorem startup_policy_witness:
  "trace (exec defaults [(focusedOnline, Continue), (focusedOnline, Microtask), (focusedOnline, Microtask)]
      (CreateRetryer defaults visibleOffline :: (bool, string) RetryerState)) = [OnContinue, FnCalled] \<and>
   FnCalled \<notin> set (trace (exec defaults
      [(hiddenOffline, Continue), (focusedOnline, Cancel None), (focusedOnline, Microtask),
       (focusedOnline, Microtask)]
      (CreateRetryer defaults visibleOffline :: (bool, string) RetryerState))) \<and>
   trace (CreateRetryer defaults focusedOnline :: (bool, string) RetryerState) = [FnCalled]"
proof -
  have off: "\<not> canFetch (networkMode defaults) visibleOffline" by (simp add: example_defs)
  have on: "canFetch (networkMode defaults) focusedOnline" by (simp add: example_defs)
  have go: "\<not> shouldPause defaults focusedOnline" by (simp add: example_defs)
  have nr: "neverResumed defaults
      [(hiddenOffline, Continue), (focusedOnline, Cancel None), (focusedOnline, Microtask),
       (focusedOnline, Microtask)]"
    by (simp add: neverResumed_def example_defs)
  note a = startup_policy[where config = defaults and ?g0.0 = visibleOffline and g = focusedOnline
      and g' = focusedOnline and g'' = focusedOnline
      and evs = "[(hiddenOffline, Continue), (focusedOnline, Cancel None),
                  (focusedOnline, Microtask), (focusedOnline, Microtask)]"]
  note b = startup_policy[where config = defaults and ?g0.0 = focusedOnline]
  from a off go nr b on show ?thesis by blast
qed

text \<open>
  C7. The default delay is \<open>min (1000 * 2 ^ failureCount) 30000\<close> for every failure
  count; it is 1000 at 0, 16000 at 4 and 30000 at 10, it never decreases when the
  failure count grows, and it never exceeds 30000.
\<close>

theorem defaultRetryDelay_backoff:
  "defaultRetryDelay n = min (1000 * 2 ^ n) 30000 \<and>
   defaultRetryDelay 0 = 1000 \<and> defaultRetryDelay 4 = 16000 \<and> defaultRetryDelay 10 = 30000 \<and>
   (\<forall>m. m \<le> n \<longrightarrow> defaultRetryDelay m \<le> defaultRetryDelay n) \<and>
   defaultRetryDelay n \<le> 30000"
proof -
  have mono: "defaultRetryDelay m \<le> defaultRetryDelay n" if "m \<le> n" for m
  proof -
    have "(2::int) ^ m \<le> 2 ^ n" using that by (simp add: power_increasing)
    then have "(1000::int) * 2 ^ m \<le> 1000 * 2 ^ n" by simp
    then show ?thesis unfolding defaultRetryDelay_def by (simp add: min_le_iff_disj)
  qed
  show ?thesis using mono by (simp add: defaultRetryDelay_def)
qed

theorem defaultRetryDelay_backoff_witness:
  "defaultRetryDelay 3 \<le> defaultRetryDelay 7 \<and> defaultRetryDelay 7 = 30000 \<and>
   defaultRetryDelay 3 = 8000"
proof -
  have le: "(3::nat) \<le> 7" by simp
  from defaultRetryDelay_backoff[of 7] have
    "\<forall>m. m \<le> 7 \<longrightarrow> defaultRetryDelay m \<le> defaultRetryDelay 7" by blast
  with le have "defaultRetryDelay 3 \<le> defaultRetryDelay 7" by blast
  then show ?thesis by (simp add: defaultRetryDelay_def)
qed

text \<open>
  C8. With \<^verbatim>\<open>retry\<close> the literal \<^verbatim>\<open>false\<close> or the number 0, under every schedule the
  unit of work is called at most once and \<^verbatim>\<open>onFail\<close> is never called. When the engine
  starts at once and its attempt fails with \<open>e\<close>, the unit of work has been called
  exactly once, the promise is rejected with \<open>e\<close>, and nothing is called afterwards.
\<close>

theorem no_retry_single_attempt:
  fixes config :: "'e RetryerConfig" and evs :: "(gates \<times> ('a, 'e) event) list"
  assumes "retry config = Some (RetryBool False) \<or> retry config = Some (RetryNumber 0)"
  shows
  "(let s = exec config evs (CreateRetryer config g0) in
      attempts (trace s) \<le> 1 \<and> filter isOnFail (trace s) = []) \<and>
   (canFetch (networkMode config) g0 \<longrightarrow>
      (let s = exec config [(g, FnSettled (Inl e))] (CreateRetryer config g0) in
         trace s = [FnCalled, OnError (WorkError e), PromiseReject (WorkError e)] \<and>
         attempts (trace s) = 1 \<and>
         promise s = Rejected (WorkError e) \<and> phase s = Idle \<and>
         trace (exec config evs s) = trace s))"
proof -
  define s where "s = exec config evs (CreateRetryer config g0)"
  have inv: "singleAttempt s"
    unfolding s_def by (rule singleAttempt_exec[OF assms singleAttempt_create])
  have a: "attempts (trace s) \<le> 1"
    using inv by (auto simp add: singleAttempt_def split: retryer_splits)
  have b: "filter isOnFail (trace s) = []"
    using inv by (simp add: singleAttempt_def filter_empty_conv)
  define t :: "('a, 'e) RetryerState"
    where "t = exec config [(g, FnSettled (Inl e))] (CreateRetryer config g0)"
  have c: "trace t = [FnCalled, OnError (WorkError e), PromiseReject (WorkError e)] \<and>
         attempts (trace t) = 1 \<and>
         promise t = Rejected (WorkError e) \<and> phase t = Idle \<and> isResolved t"
    if "canFetch (networkMode config) g0"
    using that assms unfolding t_def
    by (auto simp add: CreateRetryer_def initial_def attempts_def shouldRetry_def
        retryOrDefault_def retryer_defs Let_def)
  have d: "trace (exec config evs t) = trace t" if "canFetch (networkMode config) g0"
    using c[OF that] resolved_exec[of t config evs] by simp
  show ?thesis unfolding Let_def s_def[symmetric] t_def[symmetric] using a b c d by blast
qed

theorem no_retry_single_attempt_witness:
  "exec (defaults\<lparr>retry := Some (RetryNumber 0)\<rparr>) [(focusedOnline, FnSettled (Inl ''boom''))]
      (CreateRetryer (defaults\<lparr>retry := Some (RetryNumber 0)\<rparr>) focusedOnline)
     = (initial :: (bool, string) RetryerState)\<lparr>isResolved := True, promise := Rejected (WorkError ''boom''),
          trace := [FnCalled, OnError (WorkError ''boom''), PromiseReject (WorkError ''boom'')]\<rparr>"
  using no_retry_single_attempt[of "defaults\<lparr>retry := Some (RetryNumber 0)\<rparr>" "[]" focusedOnline
      focusedOnline "''boom''"]
  by (simp add: example_defs retryer_defs shouldRetry_def retryOrDefault_def Let_def)

text \<open>
  C9. \<^verbatim>\<open>shouldPause()\<close> is true exactly when the attention gate reports inactive (the
  visibility state is none of \<^verbatim>\<open>undefined\<close>, \<^verbatim>\<open>"visible"\<close>, \<^verbatim>\<open>"prerender"\<close>), or the
  network mode is \<^verbatim>\<open>always\<close> and the progress gate reports offline. Under every other
  mode (\<^verbatim>\<open>online\<close>, \<^verbatim>\<open>offlineFirst\<close>, and no mode given) the progress gate has no
  influence on it.
\<close>

theorem shouldPause_gates:
  "(shouldPause config g \<longleftrightarrow>
      visibilityState g \<notin> {None, Some ''visible'', Some ''prerender''} \<or>
      networkMode config = Some Always \<and> isOnline g = False) \<and>
   (networkMode config \<in> {None, Some Online, Some OfflineFirst} \<longrightarrow>
      shouldPause config (g\<lparr>isOnline := b\<rparr>) = shouldPause config g)"
  by (auto simp add: shouldPause_def isFocused_def)

theorem shouldPause_gates_witness:
  "shouldPause defaults (hiddenOffline\<lparr>isOnline := True\<rparr>) = shouldPause defaults hiddenOffline \<and>
   shouldPause defaults hiddenOffline \<and>
   shouldPause (defaults\<lparr>networkMode := Some Always\<rparr>) visibleOffline \<and>
   shouldPause (defaults\<lparr>networkMode := Some OfflineFirst\<rparr>) visibleOffline = False"
  using shouldPause_gates[of defaults hiddenOffline True]
    shouldPause_gates[of "defaults\<lparr>networkMode := Some Always\<rparr>" visibleOffline]
    shouldPause_gates[of "defaults\<lparr>networkMode := Some OfflineFirst\<rparr>" visibleOffline]
  by (simp add: example_defs)

text \<open>
  C10. Under the modes \<^verbatim>\<open>always\<close> and \<^verbatim>\<open>offlineFirst\<close>, \<^verbatim>\<open>canFetch\<close> is true whatever the
  progress gate reports, and construction calls the unit of work at once. Under the
  mode \<^verbatim>\<open>online\<close>, and when no mode is given, \<^verbatim>\<open>canFetch\<close> is the answer of the progress
  gate, and construction calls the unit of work only if the gate reports online.
\<close>

theorem canFetch_by_mode:
  "(networkMode config \<in> {Some Always, Some OfflineFirst} \<longrightarrow>
      canFetch (networkMode config) g \<and>
      trace (CreateRetryer config g) = [FnCalled] \<and>
      phase (CreateRetryer config g) = AwaitFn) \<and>
   (networkMode config \<in> {None, Some Online} \<longrightarrow>
      canFetch (networkMode config) g = isOnline g \<and>
      trace (CreateRetryer config g) = (if isOnline g then [FnCalled] else []) \<and>
      phase (CreateRetryer config g) = (if isOnline g then AwaitFn else AwaitPause ThenRun))"
  by (auto simp add: canFetch_def CreateRetryer_def initial_def retryer_defs)

theorem canFetch_by_mode_witness:
  "canFetch (Some OfflineFirst) hiddenOffline \<and>
   trace (CreateRetryer (defaults\<lparr>networkMode := Some Always\<rparr>) hiddenOffline) = [FnCalled] \<and>
   canFetch None hiddenOffline = False \<and>
   trace (CreateRetryer defaults hiddenOffline) = []"
  using canFetch_by_mode[of "defaults\<lparr>networkMode := Some Always\<rparr>" hiddenOffline]
    canFetch_by_mode[of "defaults\<lparr>networkMode := Some OfflineFirst\<rparr>" hiddenOffline]
    canFetch_by_mode[of defaults hiddenOffline]
  by (simp add: example_defs retryer_defs)

end
